theory Spec2Isabelle
  imports Complex_Main "HOL-Library.Char_ord" "HOL-Library.List_Lexorder"
begin

section \<open>Python values\<close>

text \<open>
  The two scripts are \<^verbatim>\<open>generate_run_gpx.py\<close> (the track generator) and
  \<^verbatim>\<open>garmin_uploader.py\<close> (the command-line uploader). Python's \<^verbatim>\<open>int\<close> is
  \<^typ>\<open>int\<close>. Python's \<^verbatim>\<open>float\<close> is idealised as \<^typ>\<open>real\<close>: arithmetic,
  \<^verbatim>\<open>math.cos\<close> and \<^verbatim>\<open>math.sin\<close> are exact, so nothing below speaks about
  binary rounding, infinities or NaN. Every exception the generator can raise on
  such values is a constructor of \<open>py_error\<close>, and a computation that can raise
  returns \<open>py_error + 'a\<close>.
\<close>

datatype py_error =
  ZeroDivisionError | ValueError | OverflowError | FileExistsError | IsADirectoryError

text \<open>\<^verbatim>\<open>int(x)\<close> on a float truncates towards zero.\<close>

definition py_int :: "real \<Rightarrow> int" where
  "py_int x = (if 0 \<le> x then \<lfloor>x\<rfloor> else \<lceil>x\<rceil>)"

text \<open>\<^verbatim>\<open>a / b\<close>: true division raises on a zero divisor.\<close>

definition py_truediv :: "real \<Rightarrow> real \<Rightarrow> py_error + real" where
  "py_truediv a b = (if b = 0 then Inl ZeroDivisionError else Inr (a / b))"

text \<open>\<^verbatim>\<open>range(n)\<close>: the indices \<open>0, ..., n - 1\<close>, none when \<open>n \<le> 0\<close>.\<close>

definition py_range :: "int \<Rightarrow> nat list" where
  "py_range n = [0..<nat n]"

text \<open>\<^verbatim>\<open>math.radians\<close>.\<close>

definition radians :: "real \<Rightarrow> real" where
  "radians x = x * pi / 180"

text \<open>Rounding to the nearest integer, ties to the even one (\<^verbatim>\<open>round\<close>, and the
  rounding of \<^verbatim>\<open>timedelta\<close> and of the \<^verbatim>\<open>f\<close> format).\<close>

definition round_half_even :: "real \<Rightarrow> int" where
  "round_half_even x =
     (let f = \<lfloor>x\<rfloor>; r = x - of_int f
      in if r < 1 / 2 then f else if 1 / 2 < r then f + 1 else if even f then f else f + 1)"

subsection \<open>The random module\<close>

text \<open>
  The generator draws from the module-level Mersenne Twister. The model takes the
  raw outcomes as an input: \<open>random_at R k\<close> is what \<^verbatim>\<open>random.random()\<close> returns
  when it is the \<open>k\<close>-th draw of the run, and \<open>randbelow_at R k n\<close> what the
  internal \<^verbatim>\<open>_randbelow(n)\<close> returns there. The draw counter is threaded through
  the code. \<open>rng_ok\<close> is the library's contract: \<^verbatim>\<open>random()\<close> lies in \<open>[0, 1)\<close>
  and \<^verbatim>\<open>_randbelow(n)\<close> in \<open>[0, n)\<close>.
\<close>

record random_source =
  random_at :: "nat \<Rightarrow> real"
  randbelow_at :: "nat \<Rightarrow> int \<Rightarrow> int"


text \<open>\<^verbatim>\<open>random.uniform(a, b)\<close> is \<^verbatim>\<open>a + (b - a) * self.random()\<close>.\<close>

definition uniform :: "random_source \<Rightarrow> nat \<Rightarrow> real \<Rightarrow> real \<Rightarrow> real" where
  "uniform R k a b = a + (b - a) * random_at R k"

text \<open>\<^verbatim>\<open>random.randint(a, b)\<close> is \<^verbatim>\<open>randrange(a, b + 1)\<close>: it raises
  \<^verbatim>\<open>ValueError\<close> on an empty range and returns \<^verbatim>\<open>a + _randbelow(b + 1 - a)\<close>
  otherwise.\<close>

definition randint :: "random_source \<Rightarrow> nat \<Rightarrow> int \<Rightarrow> int \<Rightarrow> py_error + int" where
  "randint R k a b =
     (let width = b + 1 - a
      in if 0 < width then Inr (a + randbelow_at R k width) else Inl ValueError)"

subsection \<open>datetime and timedelta\<close>

text \<open>
  A \<^verbatim>\<open>timedelta\<close> is a whole number of microseconds. A \<^verbatim>\<open>datetime\<close> is
  represented by its distance from \<^verbatim>\<open>datetime.min\<close> (0001-01-01T00:00:00) in
  microseconds; the last representable day is 9999-12-31, day number 3652059.
  \<^verbatim>\<open>timedelta(seconds=x)\<close> rounds a float to the nearest microsecond, ties to
  even; \<^verbatim>\<open>int * timedelta\<close> is exact; \<^verbatim>\<open>datetime + timedelta\<close> raises
  \<^verbatim>\<open>OverflowError\<close> outside the years 1 to 9999.
\<close>

type_synonym datetime = int
type_synonym timedelta = int

definition timedelta_seconds :: "real \<Rightarrow> timedelta" where
  "timedelta_seconds x = round_half_even (x * 1000000)"

definition us_per_day :: int where
  "us_per_day = 86400000000"

definition max_ordinal :: int where
  "max_ordinal = 3652059"

definition datetime_add :: "datetime \<Rightarrow> timedelta \<Rightarrow> py_error + datetime" where
  "datetime_add t d =
     (if 0 \<le> t + d \<and> t + d < max_ordinal * us_per_day then Inr (t + d)
      else Inl OverflowError)"

section \<open>The track generator: the random walk\<close>

text \<open>The keyword parameters of \<^verbatim>\<open>generate_run_gpx\<close>, typed as their defaults are.\<close>

record params =
  base_lat :: real
  base_lon :: real
  total_distance_km :: real
  points_per_km :: int
  hr_min :: int
  hr_max :: int
  cad :: int

definition default_params :: params where
  "default_params =
     \<lparr>base_lat = 54.597311099110506, base_lon = - 5.9302454388246995,
      total_distance_km = 10.0, points_per_km = 10, hr_min = 120, hr_max = 150, cad = 120\<rparr>"

text \<open>
  One track point, with the values the loop body computes for it before it formats
  them into the \<^verbatim>\<open>trkpt\<close> element: the position after the step, the elevation
  drawn, the instant \<^verbatim>\<open>t\<close>, the heart rate drawn and the cadence.
\<close>

record trkpt =
  pt_lat :: real
  pt_lon :: real
  pt_ele :: real
  pt_time :: datetime
  pt_hr :: int
  pt_cad :: int

text \<open>The loop's state: the local variables \<^verbatim>\<open>lat\<close>, \<^verbatim>\<open>lon\<close> and \<^verbatim>\<open>bearing\<close>,
  the number of random draws made so far and the children of \<^verbatim>\<open>trkseg\<close>.\<close>

record walk =
  w_lat :: real
  w_lon :: real
  w_bearing :: real
  w_draws :: nat
  w_trkseg :: "trkpt list"

text \<open>Lines 41 and 42.\<close>

definition total_points :: "params \<Rightarrow> int" where
  "total_points p = py_int (total_distance_km p * of_int (points_per_km p))"

definition pace_sec :: int where
  "pace_sec = 6 * 60"

text \<open>Lines 46 to 48: the starting state, from the first three draws.\<close>

definition walk_start :: "params \<Rightarrow> random_source \<Rightarrow> walk" where
  "walk_start p R =
     \<lparr>w_lat = base_lat p + uniform R 0 (- 0.001) 0.001,
      w_lon = base_lon p + uniform R 1 (- 0.001) 0.001,
      w_bearing = uniform R 2 0 (2 * pi),
      w_draws = 3,
      w_trkseg = []\<rparr>"

text \<open>
  The body of the loop for index \<open>i\<close> (lines 63 to 77). \<^verbatim>\<open>math.cos\<close> of a double is
  never exactly zero, so line 66 does not raise; the division stays total here. The
  two calls that can raise are the datetime addition of line 68 and \<^verbatim>\<open>randint\<close>
  of line 69, in that order.
\<close>

definition walk_step ::
  "params \<Rightarrow> random_source \<Rightarrow> real \<Rightarrow> datetime \<Rightarrow> timedelta \<Rightarrow> nat \<Rightarrow> walk \<Rightarrow> py_error + walk" where
  "walk_step p R dist_km time0 delta_t i w =
     (let k = w_draws w;
          bearing = w_bearing w + uniform R k (- radians 2) (radians 2);
          d = dist_km * uniform R (k + 1) 0.95 1.05;
          dlat = (d * cos bearing) / 110.574;
          dlon = (d * sin bearing) / (111.320 * cos (radians (w_lat w)));
          lat = w_lat w + dlat;
          lon = w_lon w + dlon
      in case datetime_add time0 (int i * delta_t) of
           Inl e \<Rightarrow> Inl e
         | Inr t \<Rightarrow>
             (case randint R (k + 2) (hr_min p) (hr_max p) of
                Inl e \<Rightarrow> Inl e
              | Inr hr \<Rightarrow>
                  Inr \<lparr>w_lat = lat, w_lon = lon, w_bearing = bearing, w_draws = k + 4,
                       w_trkseg = w_trkseg w @
                         [\<lparr>pt_lat = lat, pt_lon = lon,
                           pt_ele = uniform R (k + 3) 10 30,
                           pt_time = t, pt_hr = hr, pt_cad = cad p\<rparr>]\<rparr>))"

text \<open>\<^verbatim>\<open>for i in range(total_points)\<close>: the body runs for each index in turn and the
  first exception ends the loop.\<close>

fun walk_loop ::
  "params \<Rightarrow> random_source \<Rightarrow> real \<Rightarrow> datetime \<Rightarrow> timedelta \<Rightarrow> nat list \<Rightarrow> walk \<Rightarrow> py_error + walk" where
  "walk_loop p R dist_km time0 delta_t [] w = Inr w"
| "walk_loop p R dist_km time0 delta_t (i # is) w =
     (case walk_step p R dist_km time0 delta_t i w of
        Inl e \<Rightarrow> Inl e
      | Inr w' \<Rightarrow> walk_loop p R dist_km time0 delta_t is w')"



text \<open>
  Lines 41 to 49 and the loop of lines 62 to 77, without the XML: the walk that
  \<^verbatim>\<open>generate_run_gpx\<close> makes when the clock reads \<open>now\<close>. Its \<open>w_trkseg\<close> holds the
  track points in order.
\<close>

definition run_walk :: "params \<Rightarrow> random_source \<Rightarrow> datetime \<Rightarrow> py_error + walk" where
  "run_walk p R now =
     (case py_truediv (total_distance_km p) (of_int (total_points p)) of
        Inl e \<Rightarrow> Inl e
      | Inr dist_km \<Rightarrow>
          (case py_truediv (of_int pace_sec) (of_int (points_per_km p)) of
             Inl e \<Rightarrow> Inl e
           | Inr s \<Rightarrow>
               walk_loop p R dist_km now (timedelta_seconds s)
                 (py_range (total_points p)) (walk_start p R)))"

section \<open>Formatting numbers and instants\<close>

text \<open>\<^verbatim>\<open>str(n)\<close> of an integer: its decimal digits, with a minus sign when negative.\<close>

definition digit_char :: "nat \<Rightarrow> char" where
  "digit_char d = ''0123456789'' ! d"

fun dec_nat :: "nat \<Rightarrow> string" where
  "dec_nat n = (if n < 10 then [digit_char n] else dec_nat (n div 10) @ [digit_char (n mod 10)])"

declare dec_nat.simps [simp del]

definition py_str :: "int \<Rightarrow> string" where
  "py_str i = (if i < 0 then ''-'' @ dec_nat (nat (- i)) else dec_nat (nat i))"

text \<open>Padding with zeros on the left up to a width.\<close>

definition zfill :: "nat \<Rightarrow> string \<Rightarrow> string" where
  "zfill k s = replicate (k - length s) CHR ''0'' @ s"

text \<open>
  The format \<^verbatim>\<open>f"{x:.kf}"\<close>: the magnitude is rounded to \<open>k\<close> fractional digits,
  ties to even, and written as integer part, point and exactly \<open>k\<close> digits; the
  sign is that of \<open>x\<close> itself, so a small negative value prints as \<^verbatim>\<open>-0.000000\<close>.
\<close>

definition format_fixed :: "nat \<Rightarrow> real \<Rightarrow> string" where
  "format_fixed k x =
     (let q = nat (round_half_even (\<bar>x\<bar> * 10 ^ k))
      in (if x < 0 then ''-'' else []) @ dec_nat (q div 10 ^ k) @ ''.''
           @ zfill k (dec_nat (q mod 10 ^ k)))"

subsection \<open>The calendar fields of a datetime\<close>

text \<open>
  \<^verbatim>\<open>datetime\<close> turns a day number into year, month and day by splitting it into
  cycles of 400, 100, 4 and 1 years and estimating the month from the day of the
  year; the two tables are the days before each month and the days in it, for a
  year that is not a leap year.
\<close>

definition days_before_month :: "int \<Rightarrow> int" where
  "days_before_month m = [0, 0, 31, 59, 90, 120, 151, 181, 212, 243, 273, 304, 334] ! nat m"

definition days_in_month :: "int \<Rightarrow> int" where
  "days_in_month m = [0, 31, 28, 31, 30, 31, 30, 31, 31, 30, 31, 30, 31] ! nat m"

definition ord2ymd :: "int \<Rightarrow> int \<times> int \<times> int" where
  "ord2ymd ordinal =
     (let n = ordinal - 1;
          n400 = n div 146097; n = n mod 146097;
          n100 = n div 36524; n = n mod 36524;
          n4 = n div 1461; n = n mod 1461;
          n1 = n div 365; n = n mod 365;
          year = n400 * 400 + 1 + n100 * 100 + n4 * 4 + n1
      in if n1 = 4 \<or> n100 = 4 then (year - 1, 12, 31)
         else
           let leapyear = (n1 = 3 \<and> (n4 \<noteq> 24 \<or> n100 = 3));
               month = (n + 50) div 32;
               preceding = days_before_month month + (if 2 < month \<and> leapyear then 1 else 0)
           in if n < preceding
              then (year, month - 1,
                    n - (preceding - (days_in_month (month - 1)
                           + (if month - 1 = 2 \<and> leapyear then 1 else 0))) + 1)
              else (year, month, n - preceding + 1))"

text \<open>The whole seconds of an instant; every field below is read off them, the
  microseconds are not shown by any directive the scripts use.\<close>

definition dt_seconds :: "datetime \<Rightarrow> int" where
  "dt_seconds t = t div 1000000"

definition dt_year :: "datetime \<Rightarrow> int" where
  "dt_year t = fst (ord2ymd (dt_seconds t div 86400 + 1))"

definition dt_month :: "datetime \<Rightarrow> int" where
  "dt_month t = fst (snd (ord2ymd (dt_seconds t div 86400 + 1)))"

definition dt_day :: "datetime \<Rightarrow> int" where
  "dt_day t = snd (snd (ord2ymd (dt_seconds t div 86400 + 1)))"

definition dt_hour :: "datetime \<Rightarrow> int" where
  "dt_hour t = dt_seconds t div 3600 mod 24"

definition dt_minute :: "datetime \<Rightarrow> int" where
  "dt_minute t = dt_seconds t div 60 mod 60"

definition dt_second :: "datetime \<Rightarrow> int" where
  "dt_second t = dt_seconds t mod 60"

text \<open>
  \<^verbatim>\<open>strftime\<close>: a percent sign and the letter after it are replaced by the field,
  zero-padded (four digits for the year, two for the others); every other
  character is copied. Only the six directives the scripts use are modelled.
\<close>

definition directive :: "datetime \<Rightarrow> char \<Rightarrow> string" where
  "directive t c =
     (if c = CHR ''Y'' then zfill 4 (py_str (dt_year t))
      else if c = CHR ''m'' then zfill 2 (py_str (dt_month t))
      else if c = CHR ''d'' then zfill 2 (py_str (dt_day t))
      else if c = CHR ''H'' then zfill 2 (py_str (dt_hour t))
      else if c = CHR ''M'' then zfill 2 (py_str (dt_minute t))
      else if c = CHR ''S'' then zfill 2 (py_str (dt_second t))
      else [CHR ''%'', c])"

fun strftime :: "datetime \<Rightarrow> string \<Rightarrow> string" where
  "strftime t [] = []"
| "strftime t [c] = [c]"
| "strftime t (c # d # cs) =
     (if c = CHR ''%'' then directive t d @ strftime t cs else c # strftime t (d # cs))"

definition iso_format :: string where
  "iso_format = ''%Y-%m-%dT%H:%M:%S.000Z''"

definition fn_format :: string where
  "fn_format = ''output/run_%Y%m%d_%H%M%S.gpx''"

section \<open>The track generator: the document\<close>

text \<open>The module constants (lines 20 to 24).\<close>

definition NS_DEFAULT :: string where
  "NS_DEFAULT = ''http://www.topografix.com/GPX/1/1''"

definition NS_XSI :: string where
  "NS_XSI = ''http://www.w3.org/2001/XMLSchema-instance''"

definition NS_NS2 :: string where
  "NS_NS2 = ''http://www.garmin.com/xmlschemas/GpxExtensions/v3''"

definition NS_NS3 :: string where
  "NS_NS3 = ''http://www.garmin.com/xmlschemas/TrackPointExtension/v1''"

definition SCHEMA_LOC :: string where
  "SCHEMA_LOC = NS_DEFAULT @ '' http://www.topografix.com/GPX/11.xsd''"

subsection \<open>ElementTree\<close>

text \<open>
  An \<^verbatim>\<open>ET.Element\<close>: tag, attributes in insertion order, text and children.
  \<^verbatim>\<open>ET.SubElement\<close> appends a child to its parent and returns a reference to
  it, so what is appended to \<^verbatim>\<open>trkseg\<close> later is seen through \<^verbatim>\<open>trk\<close>; the
  model builds each element with its final children.
\<close>

datatype element = Element string "(string \<times> string) list" "string option" "element list"

text \<open>
  The prefixes ElementTree knows when the script serialises: its built-in table,
  and the two registrations of lines 27 and 28 (the empty prefix for the GPX
  namespace, \<^verbatim>\<open>xsi\<close>). The script registers nothing for \<open>NS_NS3\<close>.
\<close>

definition namespace_map :: "(string \<times> string) list" where
  "namespace_map =
     [(''http://www.w3.org/XML/1998/namespace'', ''xml''),
      (''http://www.w3.org/1999/xhtml'', ''html''),
      (''http://www.w3.org/1999/02/22-rdf-syntax-ns#'', ''rdf''),
      (''http://schemas.xmlsoap.org/wsdl/'', ''wsdl''),
      (''http://www.w3.org/2001/XMLSchema'', ''xs''),
      (''http://purl.org/dc/elements/1.1/'', ''dc''),
      (NS_DEFAULT, []),
      (NS_XSI, ''xsi'')]"

text \<open>A name written \<^verbatim>\<open>{uri}local\<close> is split at its last closing brace.\<close>

definition split_qname :: "string \<Rightarrow> (string \<times> string) option" where
  "split_qname q =
     (if take 1 q = ''{'' \<and> CHR ''}'' \<in> set q
      then let body = tl q;
               local = rev (takeWhile (\<lambda>c. c \<noteq> CHR ''}'') (rev body));
               uri = take (length body - length local - 1) body
           in Some (uri, local)
      else None)"

text \<open>
  \<^verbatim>\<open>ET.tostring\<close> first walks the tree in document order and gives every
  namespace a prefix: the one already chosen, else the registered one, else
  \<^verbatim>\<open>"ns%d" % len(namespaces)\<close>. \<open>namespaces\<close> lists the pairs of URI and prefix in
  the order they were chosen.
\<close>

definition add_qname :: "(string \<times> string) list \<Rightarrow> string \<Rightarrow> (string \<times> string) list" where
  "add_qname namespaces q =
     (case split_qname q of
        None \<Rightarrow> namespaces
      | Some (uri, local) \<Rightarrow>
          (case map_of namespaces uri of
             Some prefix \<Rightarrow> namespaces
           | None \<Rightarrow>
               (let prefix = (case map_of namespace_map uri of
                                Some known \<Rightarrow> known
                              | None \<Rightarrow> ''ns'' @ dec_nat (length namespaces))
                in if prefix = ''xml'' then namespaces else namespaces @ [(uri, prefix)])))"

fun iter_names :: "element \<Rightarrow> string list" where
  "iter_names (Element tag attrib text children) =
     tag # map fst attrib @ concat (map iter_names children)"

definition et_namespaces :: "element \<Rightarrow> (string \<times> string) list" where
  "et_namespaces e = foldl add_qname [] (iter_names e)"

definition et_qname :: "(string \<times> string) list \<Rightarrow> string \<Rightarrow> string" where
  "et_qname namespaces q =
     (case split_qname q of
        None \<Rightarrow> q
      | Some (uri, local) \<Rightarrow>
          (case map_of namespaces uri of
             Some prefix \<Rightarrow> if prefix = [] then local else prefix @ '':'' @ local
           | None \<Rightarrow> ''xml:'' @ local))"

subsection \<open>minidom\<close>

text \<open>
  \<^verbatim>\<open>ET.tostring\<close> writes every name with its prefix and declares the prefixes,
  sorted, as \<^verbatim>\<open>xmlns\<close> attributes of the root, without any white space between
  elements; \<^verbatim>\<open>minidom.parseString\<close> reads that text back. \<open>parse_tostring\<close> is the
  DOM tree that results: the same tree with qualified names, the declarations
  first among the root's attributes, and a text node for each non-empty text.
\<close>

datatype node = ElementNode string "(string \<times> string) list" "node list" | TextNode string

fun dom_of :: "(string \<times> string) list \<Rightarrow> element \<Rightarrow> node" where
  "dom_of namespaces (Element tag attrib text children) =
     ElementNode (et_qname namespaces tag)
       (map (\<lambda>(k, v). (et_qname namespaces k, v)) attrib)
       ((case text of None \<Rightarrow> [] | Some s \<Rightarrow> if s = [] then [] else [TextNode s])
        @ map (dom_of namespaces) children)"

definition xmlns_attr :: "string \<times> string \<Rightarrow> string \<times> string" where
  "xmlns_attr = (\<lambda>(uri, prefix). (''xmlns'' @ (if prefix = [] then [] else '':'' @ prefix), uri))"

definition parse_tostring :: "element \<Rightarrow> node" where
  "parse_tostring e =
     (let namespaces = et_namespaces e
      in case dom_of namespaces e of
           ElementNode tagName attrs childNodes \<Rightarrow>
             ElementNode tagName (map xmlns_attr (sort_key snd namespaces) @ attrs) childNodes
         | TextNode d \<Rightarrow> TextNode d)"

text \<open>\<^verbatim>\<open>_write_data\<close> escapes the markup characters, and the double quote inside
  an attribute value.\<close>

definition escape_char :: "bool \<Rightarrow> char \<Rightarrow> string" where
  \<open>escape_char attr c =
     (if c = CHR ''&'' then ''&amp;''
      else if c = CHR ''<'' then ''&lt;''
      else if c = CHR ''>'' then ''&gt;''
      else if attr \<and> c = CHR 0x22 then ''&quot;''
      else [c])\<close>

definition write_data :: "string \<Rightarrow> bool \<Rightarrow> string" where
  "write_data text attr = concat (map (escape_char attr) text)"

definition write_attr :: "string \<times> string \<Rightarrow> string" where
  \<open>write_attr = (\<lambda>(a_name, v). '' '' @ a_name @ ''="'' @ write_data v True @ ''"'')\<close>

text \<open>
  \<^verbatim>\<open>Element.writexml\<close>: an element without children is written as an empty tag, an
  element whose only child is a text node on one line, and any other element with
  each child on lines of its own, indented one level deeper.
\<close>

fun writexml :: "node \<Rightarrow> string \<Rightarrow> string \<Rightarrow> string \<Rightarrow> string" where
  "writexml (TextNode d) indent addindent newl = write_data (indent @ d @ newl) False"
| "writexml (ElementNode tagName attrs childNodes) indent addindent newl =
     indent @ ''<'' @ tagName @ concat (map write_attr attrs) @
     (case childNodes of
        [] \<Rightarrow> ''/>'' @ newl
      | [TextNode d] \<Rightarrow> ''>'' @ write_data d False @ ''</'' @ tagName @ ''>'' @ newl
      | _ \<Rightarrow> ''>'' @ newl
             @ concat (map (\<lambda>n. writexml n (indent @ addindent) addindent newl) childNodes)
             @ indent @ ''</'' @ tagName @ ''>'' @ newl)"

definition xml_declaration :: string where
  \<open>xml_declaration = ''<?xml version="1.0" ?>\<newline>''\<close>

definition toprettyxml :: "string \<Rightarrow> node \<Rightarrow> string" where
  "toprettyxml indent doc = xml_declaration @ writexml doc [] indent ''\<newline>''"

text \<open>Lines 90 to 94: serialise, parse, pretty-print with two spaces and cut the
  XML declaration off the front.\<close>

definition pretty :: "element \<Rightarrow> string" where
  "pretty e = drop (length xml_declaration) (toprettyxml ''  '' (parse_tostring e))"

subsection \<open>The elements the generator builds\<close>

definition ns3_tag :: "string \<Rightarrow> string" where
  "ns3_tag name = ''{'' @ NS_NS3 @ ''}'' @ name"

text \<open>Lines 52 to 55.\<close>

definition metadata_element :: "datetime \<Rightarrow> element" where
  "metadata_element time0 =
     Element ''metadata'' [] None
       [Element ''link'' [(''href'', ''connect.garmin.com'')] None
          [Element ''text'' [] (Some ''Garmin Connect'') []],
        Element ''time'' [] (Some (strftime time0 iso_format)) []]"

text \<open>Lines 70 to 77: the element of one track point, from the values of the loop
  body.\<close>

definition trkpt_element :: "trkpt \<Rightarrow> element" where
  "trkpt_element pt =
     Element ''trkpt''
       [(''lat'', format_fixed 15 (pt_lat pt)), (''lon'', format_fixed 15 (pt_lon pt))] None
       [Element ''ele'' [] (Some (format_fixed 6 (pt_ele pt))) [],
        Element ''time'' [] (Some (strftime (pt_time pt) iso_format)) [],
        Element ''extensions'' [] None
          [Element (ns3_tag ''TrackPointExtension'') [] None
             [Element (ns3_tag ''hr'') [] (Some (py_str (pt_hr pt))) [],
              Element (ns3_tag ''cad'') [] (Some (py_str (pt_cad pt))) []]]]"

text \<open>Lines 57 to 60, with the children that the loop gives \<^verbatim>\<open>trkseg\<close>.\<close>

definition trk_element :: "trkpt list \<Rightarrow> element" where
  "trk_element pts =
     Element ''trk'' [] None
       [Element ''name'' [] (Some ''County Londonderry Running'') [],
        Element ''type'' [] (Some ''running'') [],
        Element ''trkseg'' [] None (map trkpt_element pts)]"

text \<open>Lines 81 to 88: the header, written by hand.\<close>

definition header :: string where
  \<open>header =
     ''<?xml version="1.0" encoding="UTF-8"?>\<newline>'' @
     ''<gpx creator="Garmin Connect" version="1.1"\<newline>'' @
     ''  xsi:schemaLocation="'' @ SCHEMA_LOC @ ''"\<newline>'' @
     ''  xmlns:ns3="'' @ NS_NS3 @ ''"\<newline>'' @
     ''  xmlns="'' @ NS_DEFAULT @ ''"\<newline>'' @
     ''  xmlns:xsi="'' @ NS_XSI @ ''" xmlns:ns2="'' @ NS_NS2 @ ''">\<newline>''\<close>

text \<open>Line 96.\<close>

definition gpx_content :: "datetime \<Rightarrow> trkpt list \<Rightarrow> string" where
  "gpx_content time0 pts =
     header @ pretty (metadata_element time0) @ ''\<newline>'' @ pretty (trk_element pts) @ ''</gpx>''"

section \<open>The world the scripts act on\<close>

text \<open>
  What the scripts read and change outside themselves: the process environment,
  the variables of a \<^verbatim>\<open>.env\<close> file, the regular files and the directories by
  path, the lines printed to the two streams, and the calls made to the remote
  service, in order. The file system is taken to be writable; the only failures
  modelled are a path of the wrong kind.
\<close>

datatype call = Login string string | UploadActivity string

record world =
  environ :: "string \<rightharpoonup> string"
  dotenv_file :: "string \<rightharpoonup> string"
  files :: "string \<rightharpoonup> string"
  dirs :: "string set"
  stdout :: "string list"
  stderr :: "string list"
  network :: "call list"

definition print_out :: "string \<Rightarrow> world \<Rightarrow> world" where
  "print_out s W = W\<lparr>stdout := stdout W @ [s]\<rparr>"

definition print_err :: "string \<Rightarrow> world \<Rightarrow> world" where
  "print_err s W = W\<lparr>stderr := stderr W @ [s]\<rparr>"

text \<open>\<^verbatim>\<open>os.makedirs(d, exist_ok=True)\<close>.\<close>

definition makedirs_exist_ok :: "string \<Rightarrow> world \<Rightarrow> py_error + world" where
  "makedirs_exist_ok d W =
     (if d \<in> dirs W then Inr W
      else if d \<in> dom (files W) then Inl FileExistsError
      else Inr (W\<lparr>dirs := insert d (dirs W)\<rparr>))"

text \<open>\<^verbatim>\<open>open(fn, 'w')\<close> and \<^verbatim>\<open>f.write(content)\<close>: the file is created or replaced.\<close>

definition write_file :: "string \<Rightarrow> string \<Rightarrow> world \<Rightarrow> py_error + world" where
  "write_file fn content W =
     (if fn \<in> dirs W then Inl IsADirectoryError
      else Inr (W\<lparr>files := (files W)(fn \<mapsto> content)\<rparr>))"

section \<open>The track generator: generate_run_gpx\<close>

text \<open>
  The whole function, for the parameters \<open>p\<close>, the random source \<open>R\<close> and the
  clock reading \<open>now\<close> of \<^verbatim>\<open>datetime.utcnow()\<close>: the walk, the document, the output
  directory, the file, the confirmation, the path returned. An exception leaves
  the world as it was when it was raised.
\<close>

definition generate_run_gpx ::
  "params \<Rightarrow> random_source \<Rightarrow> datetime \<Rightarrow> world \<Rightarrow> world \<times> (py_error + string)" where
  "generate_run_gpx p R now W =
     (case run_walk p R now of
        Inl e \<Rightarrow> (W, Inl e)
      | Inr w \<Rightarrow>
          (let content = gpx_content now (w_trkseg w)
           in case makedirs_exist_ok ''output'' W of
                Inl e \<Rightarrow> (W, Inl e)
              | Inr W1 \<Rightarrow>
                  (let fn = strftime now fn_format
                   in case write_file fn content W1 of
                        Inl e \<Rightarrow> (W1, Inl e)
                      | Inr W2 \<Rightarrow> (print_out (''GPX file saved to '' @ fn) W2, Inr fn))))"


section \<open>The uploader\<close>

text \<open>
  The remote service is an input: \<open>login_raises G u pw\<close> is the message of the
  exception that \<^verbatim>\<open>client.login()\<close> raises for these credentials, or \<open>None\<close> when
  it returns; \<open>upload_raises G path\<close> likewise for \<^verbatim>\<open>client.upload_activity(path)\<close>.
\<close>

record garmin =
  login_raises :: "string \<Rightarrow> string \<Rightarrow> string option"
  upload_raises :: "string \<Rightarrow> string option"

text \<open>How a call ends: it returns, it calls \<^verbatim>\<open>sys.exit(n)\<close>, or an exception
  escapes it. The process exit status is 0, \<open>n\<close> and 1 respectively.\<close>

datatype 'a result = Return 'a | SysExit int | Raise py_error

definition exit_status :: "'a result \<Rightarrow> int" where
  "exit_status r = (case r of Return v \<Rightarrow> 0 | SysExit n \<Rightarrow> n | Raise e \<Rightarrow> 1)"

text \<open>\<^verbatim>\<open>load_dotenv()\<close>: a variable of the file is set unless the environment
  already has one of that name.\<close>

definition load_dotenv :: "world \<Rightarrow> world" where
  "load_dotenv W =
     W\<lparr>environ := (\<lambda>k. case environ W k of Some v \<Rightarrow> Some v | None \<Rightarrow> dotenv_file W k)\<rparr>"


text \<open>
  \<^verbatim>\<open>os.path.splitext\<close> on POSIX: the extension starts at the last dot of the
  last path component, unless only dots come before it in that component.
  \<^verbatim>\<open>str.rfind\<close> gives \<open>- 1\<close> when the character is absent.
\<close>

definition rfind :: "char \<Rightarrow> string \<Rightarrow> int" where
  "rfind c s =
     (if c \<in> set s then int (length s) - 1 - int (length (takeWhile (\<lambda>x. x \<noteq> c) (rev s)))
      else - 1)"

function skip_leading_dots :: "string \<Rightarrow> int \<Rightarrow> int \<Rightarrow> string \<times> string" where
  "skip_leading_dots p filenameIndex dotIndex =
     (if filenameIndex < dotIndex
      then if take 1 (drop (nat filenameIndex) p) \<noteq> ''.''
           then (take (nat dotIndex) p, drop (nat dotIndex) p)
           else skip_leading_dots p (filenameIndex + 1) dotIndex
      else (p, []))"
  by pat_completeness auto
termination
  by (relation "measure (\<lambda>(p, filenameIndex, dotIndex). nat (dotIndex - filenameIndex))") auto

declare skip_leading_dots.simps [simp del]

definition splitext :: "string \<Rightarrow> string \<times> string" where
  "splitext p =
     (let sepIndex = rfind CHR ''/'' p; dotIndex = rfind CHR ''.'' p
      in if sepIndex < dotIndex then skip_leading_dots p (sepIndex + 1) dotIndex else (p, []))"

text \<open>\<^verbatim>\<open>str.lower\<close>, on the ASCII letters.\<close>

definition lower_char :: "char \<Rightarrow> char" where
  "lower_char c =
     (case map_of (zip ''ABCDEFGHIJKLMNOPQRSTUVWXYZ'' ''abcdefghijklmnopqrstuvwxyz'') c of
        Some l \<Rightarrow> l | None \<Rightarrow> c)"

definition py_lower :: "string \<Rightarrow> string" where
  "py_lower s = map lower_char s"

text \<open>The check mark U+2705 that starts two of the messages, in UTF-8.\<close>

definition check_mark :: string where
  "check_mark = [CHR 0xE2, CHR 0x9C, CHR 0x85]"

definition missing_credentials_message :: string where
  "missing_credentials_message =
     ''Error: GARMIN_USERNAME and GARMIN_PASSWORD must be set in environment''"

text \<open>\<^verbatim>\<open>upload_to_garmin(file_path)\<close>, lines 19 to 51. Each call to the service is
  recorded in \<open>network\<close> before its outcome is looked at.\<close>

definition upload_to_garmin :: "garmin \<Rightarrow> string \<Rightarrow> world \<Rightarrow> world \<times> unit result" where
  "upload_to_garmin G file_path W =
     (let W1 = load_dotenv W;
          username = environ W1 ''GARMIN_USERNAME'';
          password = environ W1 ''GARMIN_PASSWORD''
      in case (username, password) of
           (Some u, Some pw) \<Rightarrow>
             if u = [] \<or> pw = []
             then (print_err missing_credentials_message W1, SysExit 1)
             else
               (let W2 = W1\<lparr>network := network W1 @ [Login u pw]\<rparr>
                in case login_raises G u pw of
                     Some e \<Rightarrow> (print_err (''Login failed: '' @ e) W2, SysExit 1)
                   | None \<Rightarrow>
                       (let W3 = print_out (check_mark @ '' Logged in to Garmin Connect'') W2;
                            ext = py_lower (snd (splitext file_path))
                        in if ext \<noteq> ''.fit'' \<and> ext \<noteq> ''.gpx''
                           then (print_err ''Error: File must be .gpx or .fit'' W3, SysExit 1)
                           else
                             (let W4 = print_out (''Uploading '' @ file_path
                                         @ '' as a running activity...'') W3;
                                  W5 = W4\<lparr>network := network W4 @ [UploadActivity file_path]\<rparr>
                              in case upload_raises G file_path of
                                   Some e \<Rightarrow> (print_err (''Upload failed: '' @ e) W5, SysExit 1)
                                 | None \<Rightarrow>
                                     (print_out (check_mark @ '' Upload complete!'') W5,
                                      Return ()))))
         | _ \<Rightarrow> (print_err missing_credentials_message W1, SysExit 1))"


text \<open>Both credentials are set and not empty once the \<^verbatim>\<open>.env\<close> file is loaded.\<close>

definition has_credentials :: "world \<Rightarrow> string \<Rightarrow> string \<Rightarrow> bool" where
  "has_credentials W u pw \<longleftrightarrow>
     environ (load_dotenv W) ''GARMIN_USERNAME'' = Some u \<and>
     environ (load_dotenv W) ''GARMIN_PASSWORD'' = Some pw \<and> u \<noteq> [] \<and> pw \<noteq> []"

section \<open>Example inputs\<close>

text \<open>A random source that always draws the middle of the range and the least
  integer, and a clock reading of 2026-11-04T09:41:00 (day number 739924).\<close>

definition example_rng :: random_source where
  "example_rng = \<lparr>random_at = (\<lambda>k. 1 / 2), randbelow_at = (\<lambda>k n. 0)\<rparr>"

definition example_now :: datetime where
  "example_now = (739923 * 86400 + 9 * 3600 + 41 * 60) * 1000000"





text \<open>Half a kilometre at one point per kilometre: no point at all.\<close>

definition half_km_params :: params where
  "half_km_params = default_params\<lparr>total_distance_km := 0.5, points_per_km := 1\<rparr>"

text \<open>An empty world, a world with credentials and two files, and three remote
  services: one that accepts both calls, one whose login fails and one whose
  upload fails.\<close>

definition example_world :: world where
  "example_world =
     \<lparr>environ = Map.empty, dotenv_file = Map.empty, files = Map.empty, dirs = {},
      stdout = [], stderr = [], network = []\<rparr>"

definition credentials_world :: world where
  "credentials_world =
     example_world\<lparr>environ := [''GARMIN_USERNAME'' \<mapsto> ''runner@example.com'',
                                 ''GARMIN_PASSWORD'' \<mapsto> ''secret''],
                    files := [''notes.txt'' \<mapsto> ''hello'', ''run.gpx'' \<mapsto> ''<gpx/>'']\<rparr>"

definition accepting_garmin :: garmin where
  "accepting_garmin = \<lparr>login_raises = (\<lambda>u pw. None), upload_raises = (\<lambda>f. None)\<rparr>"

definition login_failing_garmin :: garmin where
  "login_failing_garmin =
     \<lparr>login_raises = (\<lambda>u pw. Some ''401 Unauthorized''), upload_raises = (\<lambda>f. None)\<rparr>"

definition upload_failing_garmin :: garmin where
  "upload_failing_garmin =
     \<lparr>login_raises = (\<lambda>u pw. None), upload_raises = (\<lambda>f. Some ''409 Conflict'')\<rparr>"

text \<open>
  One point on the equator: the walk starts at latitude and longitude 0 and the
  third draw turns the bearing to a quarter turn, due east, so that the step
  leaves the latitude at 0 and moves the longitude by one kilometre's worth,
  \<open>1 / 111.320\<close> degrees. \<open>equator_document\<close> is the text of the file that
  results.
\<close>

definition equator_params :: params where
  "equator_params =
     default_params\<lparr>base_lat := 0, base_lon := 0, total_distance_km := 1.0, points_per_km := 1\<rparr>"

definition quarter_turn_rng :: random_source where
  "quarter_turn_rng =
     \<lparr>random_at = (\<lambda>k. if k = 2 then 1 / 4 else 1 / 2), randbelow_at = (\<lambda>k n. 0)\<rparr>"

definition equator_point :: trkpt where
  "equator_point =
     \<lparr>pt_lat = 0, pt_lon = 1 / 111.320, pt_ele = 20, pt_time = example_now,
      pt_hr = 120, pt_cad = 120\<rparr>"

definition equator_walk :: walk where
  "equator_walk =
     \<lparr>w_lat = 0, w_lon = 1 / 111.320, w_bearing = pi / 2, w_draws = 7,
      w_trkseg = [equator_point]\<rparr>"

definition equator_document :: string where
  \<open>equator_document =
     header @
     ''<metadata>\<newline>'' @
     ''  <link href="connect.garmin.com">\<newline>'' @
     ''    <text>Garmin Connect</text>\<newline>'' @
     ''  </link>\<newline>'' @
     ''  <time>2026-11-04T09:41:00.000Z</time>\<newline>'' @
     ''</metadata>\<newline>'' @
     ''\<newline>'' @
     ''<trk xmlns:ns0="'' @ NS_NS3 @ ''">\<newline>'' @
     ''  <name>County Londonderry Running</name>\<newline>'' @
     ''  <type>running</type>\<newline>'' @
     ''  <trkseg>\<newline>'' @
     ''    <trkpt lat="0.000000000000000" lon="0.008983111749910">\<newline>'' @
     ''      <ele>20.000000</ele>\<newline>'' @
     ''      <time>2026-11-04T09:41:00.000Z</time>\<newline>'' @
     ''      <extensions>\<newline>'' @
     ''        <ns0:TrackPointExtension>\<newline>'' @
     ''          <ns0:hr>120</ns0:hr>\<newline>'' @
     ''          <ns0:cad>120</ns0:cad>\<newline>'' @
     ''        </ns0:TrackPointExtension>\<newline>'' @
     ''      </extensions>\<newline>'' @
     ''    </trkpt>\<newline>'' @
     ''  </trkseg>\<newline>'' @
     ''</trk>\<newline>'' @
     ''</gpx>''\<close>

text \<open>An elevation drawn just below the upper end: \<open>a + (b - a) * r\<close> for the draw
  \<open>r = 0.99999999\<close>.\<close>

definition near_thirty :: real where
  "near_thirty = 10 + (30 - 10) * (99999999 / 100000000)"

section \<open>Properties of the walk\<close>



























section \<open>Properties of the timestamps\<close>




















section \<open>Properties of the generator's effects\<close>

lemma fn_format_eq:
  "strftime now fn_format =
     ''output/run_'' @ zfill 4 (py_str (dt_year now)) @ zfill 2 (py_str (dt_month now))
       @ zfill 2 (py_str (dt_day now)) @ ''_'' @ zfill 2 (py_str (dt_hour now))
       @ zfill 2 (py_str (dt_minute now)) @ zfill 2 (py_str (dt_second now)) @ ''.gpx''"
  by (simp add: fn_format_def directive_def)

lemma iso_format_eq:
  "strftime t iso_format =
     zfill 4 (py_str (dt_year t)) @ ''-'' @ zfill 2 (py_str (dt_month t)) @ ''-''
       @ zfill 2 (py_str (dt_day t)) @ ''T'' @ zfill 2 (py_str (dt_hour t)) @ '':''
       @ zfill 2 (py_str (dt_minute t)) @ '':'' @ zfill 2 (py_str (dt_second t)) @ ''.000Z''"
  by (simp add: iso_format_def directive_def)

lemma fn_not_output: "strftime now fn_format \<noteq> ''output''"
  by (simp add: fn_format_eq)



lemma generate_run_gpx_succeeds:
  assumes "run_walk p R now = Inr w"
    and "''output'' \<in> dirs W \<or> ''output'' \<notin> dom (files W)"
    and "strftime now fn_format \<notin> dirs W"
  shows "generate_run_gpx p R now W =
           (W\<lparr>dirs := insert ''output'' (dirs W),
              files := (files W)(strftime now fn_format \<mapsto> gpx_content now (w_trkseg w)),
              stdout := stdout W @ [''GPX file saved to '' @ strftime now fn_format]\<rparr>,
            Inr (strftime now fn_format))"
  using assms fn_not_output [of now]
  by (auto simp: generate_run_gpx_def Let_def makedirs_exist_ok_def write_file_def
      print_out_def insert_absorb)


lemma example_fn: "strftime example_now fn_format = ''output/run_20261104_094100.gpx''"
  by (simp add: fn_format_eq zfill_def py_str_def dec_nat.simps digit_char_def
     dt_year_def dt_month_def dt_day_def dt_hour_def dt_minute_def dt_second_def dt_seconds_def
     ord2ymd_def Let_def days_before_month_def days_in_month_def example_now_def)

lemma example_iso: "strftime example_now iso_format = ''2026-11-04T09:41:00.000Z''"
  by (simp add: iso_format_eq zfill_def py_str_def dec_nat.simps digit_char_def
     dt_year_def dt_month_def dt_day_def dt_hour_def dt_minute_def dt_second_def dt_seconds_def
     ord2ymd_def Let_def days_before_month_def days_in_month_def example_now_def)



text \<open>
  Claim C10. Whenever \<open>int (total_distance_km * points_per_km)\<close> is zero, as for
  0.5 km at one point per kilometre, the division of line 42 raises
  \<^verbatim>\<open>ZeroDivisionError\<close>: the call ends with that error and leaves the world as it
  was, with no track, no directory, no file and nothing printed.
\<close>

theorem zero_points_division:
  "(\<forall>p R now W. total_points p = 0 \<longrightarrow> generate_run_gpx p R now W = (W, Inl ZeroDivisionError))
   \<and> total_points half_km_params = 0"
  by (simp add: generate_run_gpx_def run_walk_def py_truediv_def total_points_def py_int_def
      half_km_params_def default_params_def)

theorem zero_points_division_witness:
  "total_points half_km_params = 0
   \<and> generate_run_gpx half_km_params example_rng example_now example_world
        = (example_world, Inl ZeroDivisionError)"
proof -
  have z: "total_points half_km_params = 0"
    by (simp add: total_points_def py_int_def half_km_params_def default_params_def)
  with zero_points_division show ?thesis by blast
qed

section \<open>Properties of the uploader\<close>


lemma upload_with_credentials:
  assumes "has_credentials W u pw"
  shows "upload_to_garmin G path W =
     (let W2 = (load_dotenv W)\<lparr>network := network W @ [Login u pw]\<rparr>
      in case login_raises G u pw of
           Some e \<Rightarrow> (print_err (''Login failed: '' @ e) W2, SysExit 1)
         | None \<Rightarrow>
             (let W3 = print_out (check_mark @ '' Logged in to Garmin Connect'') W2;
                  ext = py_lower (snd (splitext path))
              in if ext \<noteq> ''.fit'' \<and> ext \<noteq> ''.gpx''
                 then (print_err ''Error: File must be .gpx or .fit'' W3, SysExit 1)
                 else
                   (let W4 = print_out (''Uploading '' @ path @ '' as a running activity...'') W3;
                        W5 = W4\<lparr>network := network W4 @ [UploadActivity path]\<rparr>
                    in case upload_raises G path of
                         Some e \<Rightarrow> (print_err (''Upload failed: '' @ e) W5, SysExit 1)
                       | None \<Rightarrow> (print_out (check_mark @ '' Upload complete!'') W5, Return ()))))"
  using assms
  by (simp add: upload_to_garmin_def has_credentials_def Let_def load_dotenv_def)

lemma example_has_credentials:
  "has_credentials credentials_world ''runner@example.com'' ''secret''"
  by (simp add: has_credentials_def load_dotenv_def credentials_world_def example_world_def)

lemma ext_notes: "py_lower (snd (splitext ''notes.txt'')) = ''.txt''"
  by (simp add: splitext_def rfind_def Let_def skip_leading_dots.simps py_lower_def lower_char_def)

lemma ext_run: "py_lower (snd (splitext ''run.gpx'')) = ''.gpx''"
  by (simp add: splitext_def rfind_def Let_def skip_leading_dots.simps py_lower_def lower_char_def)




text \<open>
  Claim C8. With credentials present and a login that succeeds, a path whose
  extension, in lower case, is neither \<^verbatim>\<open>.fit\<close> nor \<^verbatim>\<open>.gpx\<close> (no extension
  included) makes the process print \<^verbatim>\<open>Error: File must be .gpx or .fit\<close> to the
  error stream and exit with status 1: the login call has been made, the upload
  call has not.
\<close>

theorem unsupported_extension:
  assumes "has_credentials W u pw" and "login_raises G u pw = None"
    and "py_lower (snd (splitext path)) \<noteq> ''.fit''"
    and "py_lower (snd (splitext path)) \<noteq> ''.gpx''"
  shows "upload_to_garmin G path W =
           (print_err ''Error: File must be .gpx or .fit''
              (print_out (check_mark @ '' Logged in to Garmin Connect'')
                 ((load_dotenv W)\<lparr>network := network W @ [Login u pw]\<rparr>)), SysExit 1)
       \<and> network (fst (upload_to_garmin G path W)) = network W @ [Login u pw]
       \<and> stderr (fst (upload_to_garmin G path W)) = stderr W @ [''Error: File must be .gpx or .fit'']
       \<and> exit_status (snd (upload_to_garmin G path W)) = 1"
  using assms(2-4)
  by (simp add: upload_with_credentials [OF assms(1)] Let_def print_err_def print_out_def
      load_dotenv_def exit_status_def)

theorem unsupported_extension_witness:
  "has_credentials credentials_world ''runner@example.com'' ''secret''
   \<and> login_raises accepting_garmin ''runner@example.com'' ''secret'' = None
   \<and> py_lower (snd (splitext ''notes.txt'')) = ''.txt''
   \<and> network (fst (upload_to_garmin accepting_garmin ''notes.txt'' credentials_world))
        = [Login ''runner@example.com'' ''secret'']
   \<and> stderr (fst (upload_to_garmin accepting_garmin ''notes.txt'' credentials_world))
        = [''Error: File must be .gpx or .fit'']
   \<and> exit_status (snd (upload_to_garmin accepting_garmin ''notes.txt'' credentials_world)) = 1"
proof -
  have l: "login_raises accepting_garmin ''runner@example.com'' ''secret'' = None"
    by (simp add: accepting_garmin_def)
  have e: "py_lower (snd (splitext ''notes.txt'')) \<noteq> ''.fit''"
    "py_lower (snd (splitext ''notes.txt'')) \<noteq> ''.gpx''"
    by (simp_all add: ext_notes)
  have n: "network credentials_world = []" "stderr credentials_world = []"
    by (simp_all add: credentials_world_def example_world_def)
  note u = unsupported_extension [OF example_has_credentials l e, unfolded n append_Nil]
  from u example_has_credentials l ext_notes show ?thesis by blast
qed

text \<open>
  Claim C9. With credentials present: if the login call raises, the process prints
  \<^verbatim>\<open>Login failed: \<close> and the message to the error stream and exits with status
  1, and the upload call is not made; if the login succeeds, the extension is
  accepted and the upload call raises, it prints \<^verbatim>\<open>Upload failed: \<close> and the
  message and exits with status 1. The upload call is made only after a login that
  succeeded.
\<close>

theorem login_then_upload_failures:
  assumes "has_credentials W u pw"
  shows "(\<forall>e. login_raises G u pw = Some e \<longrightarrow>
            upload_to_garmin G path W =
              (print_err (''Login failed: '' @ e)
                 ((load_dotenv W)\<lparr>network := network W @ [Login u pw]\<rparr>), SysExit 1)
            \<and> stderr (fst (upload_to_garmin G path W)) = stderr W @ [''Login failed: '' @ e]
            \<and> network (fst (upload_to_garmin G path W)) = network W @ [Login u pw]
            \<and> exit_status (snd (upload_to_garmin G path W)) = 1)
       \<and> (\<forall>e. login_raises G u pw = None
              \<and> (py_lower (snd (splitext path)) = ''.fit'' \<or> py_lower (snd (splitext path)) = ''.gpx'')
              \<and> upload_raises G path = Some e \<longrightarrow>
            stderr (fst (upload_to_garmin G path W)) = stderr W @ [''Upload failed: '' @ e]
            \<and> network (fst (upload_to_garmin G path W)) = network W @ [Login u pw, UploadActivity path]
            \<and> exit_status (snd (upload_to_garmin G path W)) = 1)
       \<and> (UploadActivity path \<in> set (drop (length (network W)) (network (fst (upload_to_garmin G path W))))
            \<longrightarrow> login_raises G u pw = None)"
  by (auto simp: upload_with_credentials [OF assms] Let_def print_err_def print_out_def
      load_dotenv_def exit_status_def split: option.splits)

theorem login_then_upload_failures_witness:
  "has_credentials credentials_world ''runner@example.com'' ''secret''
   \<and> login_raises login_failing_garmin ''runner@example.com'' ''secret'' = Some ''401 Unauthorized''
   \<and> stderr (fst (upload_to_garmin login_failing_garmin ''run.gpx'' credentials_world))
        = [''Login failed: 401 Unauthorized'']
   \<and> network (fst (upload_to_garmin login_failing_garmin ''run.gpx'' credentials_world))
        = [Login ''runner@example.com'' ''secret'']
   \<and> exit_status (snd (upload_to_garmin login_failing_garmin ''run.gpx'' credentials_world)) = 1
   \<and> login_raises upload_failing_garmin ''runner@example.com'' ''secret'' = None
   \<and> upload_raises upload_failing_garmin ''run.gpx'' = Some ''409 Conflict''
   \<and> stderr (fst (upload_to_garmin upload_failing_garmin ''run.gpx'' credentials_world))
        = [''Upload failed: 409 Conflict'']
   \<and> network (fst (upload_to_garmin upload_failing_garmin ''run.gpx'' credentials_world))
        = [Login ''runner@example.com'' ''secret'', UploadActivity ''run.gpx'']
   \<and> exit_status (snd (upload_to_garmin upload_failing_garmin ''run.gpx'' credentials_world)) = 1"
proof -
  have n: "network credentials_world = []" "stderr credentials_world = []"
    by (simp_all add: credentials_world_def example_world_def)
  have l1: "login_raises login_failing_garmin ''runner@example.com'' ''secret'' = Some ''401 Unauthorized''"
    by (simp add: login_failing_garmin_def)
  have l2: "login_raises upload_failing_garmin ''runner@example.com'' ''secret'' = None"
    and u2: "upload_raises upload_failing_garmin ''run.gpx'' = Some ''409 Conflict''"
    by (simp_all add: upload_failing_garmin_def)
  note f1 = login_then_upload_failures [OF example_has_credentials, of login_failing_garmin "''run.gpx''",
      unfolded n append_Nil]
  note f2 = login_then_upload_failures [OF example_has_credentials, of upload_failing_garmin "''run.gpx''",
      unfolded n append_Nil]
  from f1 l1
  have "stderr (fst (upload_to_garmin login_failing_garmin ''run.gpx'' credentials_world))
        = [''Login failed: '' @ ''401 Unauthorized'']
   \<and> network (fst (upload_to_garmin login_failing_garmin ''run.gpx'' credentials_world))
        = [Login ''runner@example.com'' ''secret'']
   \<and> exit_status (snd (upload_to_garmin login_failing_garmin ''run.gpx'' credentials_world)) = 1"
    by blast
  then
  have a: "stderr (fst (upload_to_garmin login_failing_garmin ''run.gpx'' credentials_world))
        = [''Login failed: 401 Unauthorized'']
   \<and> network (fst (upload_to_garmin login_failing_garmin ''run.gpx'' credentials_world))
        = [Login ''runner@example.com'' ''secret'']
   \<and> exit_status (snd (upload_to_garmin login_failing_garmin ''run.gpx'' credentials_world)) = 1"
    by simp
  from f2 l2 u2 ext_run
  have "stderr (fst (upload_to_garmin upload_failing_garmin ''run.gpx'' credentials_world))
        = [''Upload failed: '' @ ''409 Conflict'']
   \<and> network (fst (upload_to_garmin upload_failing_garmin ''run.gpx'' credentials_world))
        = [Login ''runner@example.com'' ''secret'', UploadActivity ''run.gpx'']
   \<and> exit_status (snd (upload_to_garmin upload_failing_garmin ''run.gpx'' credentials_world)) = 1"
    by blast
  then
  have b: "stderr (fst (upload_to_garmin upload_failing_garmin ''run.gpx'' credentials_world))
        = [''Upload failed: 409 Conflict'']
   \<and> network (fst (upload_to_garmin upload_failing_garmin ''run.gpx'' credentials_world))
        = [Login ''runner@example.com'' ''secret'', UploadActivity ''run.gpx'']
   \<and> exit_status (snd (upload_to_garmin upload_failing_garmin ''run.gpx'' credentials_world)) = 1"
    by simp
  from example_has_credentials l1 a l2 u2 b show ?thesis by blast
qed

section \<open>The document that the generator writes\<close>

lemma equator_run: "run_walk equator_params quarter_turn_rng example_now = Inr equator_walk"
proof -
  have f: "total_distance_km equator_params = 1" "points_per_km equator_params = 1"
    "base_lat equator_params = 0" "base_lon equator_params = 0"
    "hr_min equator_params = 120" "hr_max equator_params = 150" "cad equator_params = 120"
    by (simp_all add: equator_params_def default_params_def)
  have t: "total_points equator_params = 1"
    by (simp add: total_points_def py_int_def f)
  have r: "round_half_even 360000000 = 360000000"
    by (simp add: round_half_even_def)
  show ?thesis
    by (simp add: run_walk_def t f r py_truediv_def pace_sec_def py_range_def
      walk_start_def walk_step_def Let_def uniform_def quarter_turn_rng_def randint_def
      datetime_add_def example_now_def max_ordinal_def us_per_day_def radians_def
      timedelta_seconds_def equator_walk_def equator_point_def)
qed

lemma format_fixed_eval:
  assumes "round_half_even (\<bar>x\<bar> * 10 ^ k) = q" "nat q div 10 ^ k = a" "nat q mod 10 ^ k = b"
  shows "format_fixed k x = (if x < 0 then ''-'' else []) @ dec_nat a @ ''.'' @ zfill k (dec_nat b)"
  using assms by (simp add: format_fixed_def Let_def)

lemma zfill_dec:
  "zfill k s = (if length s < k then CHR ''0'' # zfill (k - 1) s else s)"
  by (cases k) (auto simp: zfill_def Suc_diff_le replicate_app_Cons_same)

lemma equator_fields:
  "pt_time equator_point = example_now" "pt_hr equator_point = 120" "pt_cad equator_point = 120"
  by (simp_all add: equator_point_def)

lemma format_lat: "format_fixed 15 (pt_lat equator_point) = ''0.000000000000000''"
proof -
  have q: "round_half_even (\<bar>pt_lat equator_point\<bar> * 10 ^ 15) = 0"
    by (simp add: round_half_even_def equator_point_def)
  have d: "nat 0 div 10 ^ 15 = 0" "nat 0 mod 10 ^ 15 = 0" by simp_all
  have z: "zfill 15 ''0'' = ''000000000000000''"
    by (simp add: zfill_dec)
  have x: "\<not> pt_lat equator_point < 0" by (simp add: equator_point_def)
  show ?thesis
    unfolding format_fixed_eval [OF q d]
    by (simp add: x z dec_nat.simps digit_char_def)
qed

lemma format_lon: "format_fixed 15 (pt_lon equator_point) = ''0.008983111749910''"
proof -
  have q: "round_half_even (\<bar>pt_lon equator_point\<bar> * 10 ^ 15) = 8983111749910"
    by (simp add: round_half_even_def Let_def equator_point_def)
  have d: "nat 8983111749910 div 10 ^ 15 = 0" "nat 8983111749910 mod 10 ^ 15 = 8983111749910"
    by simp_all
  have n: "dec_nat 8983111749910 = ''8983111749910''"
    by (simp add: dec_nat.simps digit_char_def)
  have z: "zfill 15 ''8983111749910'' = ''008983111749910''"
    by (simp add: zfill_dec)
  have x: "\<not> pt_lon equator_point < 0" by (simp add: equator_point_def)
  show ?thesis
    unfolding format_fixed_eval [OF q d]
    by (simp add: x n z dec_nat.simps digit_char_def)
qed

lemma format_ele: "format_fixed 6 (pt_ele equator_point) = ''20.000000''"
proof -
  have q: "round_half_even (\<bar>pt_ele equator_point\<bar> * 10 ^ 6) = 20000000"
    by (simp add: round_half_even_def equator_point_def)
  have d: "nat 20000000 div 10 ^ 6 = 20" "nat 20000000 mod 10 ^ 6 = 0" by simp_all
  have z: "zfill 6 ''0'' = ''000000''"
    by (simp add: zfill_dec)
  have x: "\<not> pt_ele equator_point < 0" by (simp add: equator_point_def)
  show ?thesis
    unfolding format_fixed_eval [OF q d]
    by (simp add: x z dec_nat.simps digit_char_def)
qed

text \<open>The text of an elevation has six fractional digits, so a draw within
  0.0000005 of 30 is written as 30.000000 although the draw itself is below 30.\<close>

lemma elevation_text_rounded:
  "near_thirty < 30 \<and> format_fixed 6 near_thirty = ''30.000000''"
proof -
  have v: "near_thirty = 299999998 / 10000000" by (simp add: near_thirty_def)
  have f: "\<lfloor>near_thirty * 10 ^ 6\<rfloor> = 29999999" unfolding v by simp
  have q: "round_half_even (\<bar>near_thirty\<bar> * 10 ^ 6) = 30000000"
    using f unfolding round_half_even_def v by simp
  have d: "nat 30000000 div 10 ^ 6 = 30" "nat 30000000 mod 10 ^ 6 = 0" by simp_all
  have z: "zfill 6 ''0'' = ''000000''"
    by (simp add: zfill_dec)
  have x: "\<not> near_thirty < 0" by (simp add: v)
  have "format_fixed 6 near_thirty = ''30.000000''"
    unfolding format_fixed_eval [OF q d]
    by (simp add: x z dec_nat.simps digit_char_def)
  then show ?thesis by (simp add: v)
qed

lemma str_120: "py_str 120 = ''120''"
  by (simp add: py_str_def dec_nat.simps digit_char_def)

lemma equator_trkpt:
  "trkpt_element equator_point =
     Element ''trkpt'' [(''lat'', ''0.000000000000000''), (''lon'', ''0.008983111749910'')] None
       [Element ''ele'' [] (Some ''20.000000'') [],
        Element ''time'' [] (Some ''2026-11-04T09:41:00.000Z'') [],
        Element ''extensions'' [] None
          [Element (ns3_tag ''TrackPointExtension'') [] None
             [Element (ns3_tag ''hr'') [] (Some ''120'') [],
              Element (ns3_tag ''cad'') [] (Some ''120'') []]]]"
  by (simp add: trkpt_element_def equator_fields format_lat format_lon format_ele str_120
      example_iso)

lemma split_qname_plain: "take 1 q \<noteq> ''{'' \<Longrightarrow> split_qname q = None"
  by (simp add: split_qname_def)

lemma split_qname_ns3:
  assumes "CHR ''}'' \<notin> set name"
  shows "split_qname (ns3_tag name) = Some (NS_NS3, name)"
proof -
  have "takeWhile (\<lambda>c. c \<noteq> CHR ''}'') (rev name @ CHR ''}'' # rev NS_NS3)
          = rev name @ takeWhile (\<lambda>c. c \<noteq> CHR ''}'') (CHR ''}'' # rev NS_NS3)"
    by (rule takeWhile_append2) (use assms in auto)
  then have "takeWhile (\<lambda>c. c \<noteq> CHR ''}'') (rev name @ CHR ''}'' # rev NS_NS3) = rev name"
    by simp
  then show ?thesis
    by (simp add: split_qname_def ns3_tag_def Let_def)
qed

lemma ns3_unregistered: "map_of namespace_map NS_NS3 = None"
  by (simp add: namespace_map_def NS_NS3_def NS_DEFAULT_def NS_XSI_def)

lemma add_qname_plain: "take 1 q \<noteq> ''{'' \<Longrightarrow> add_qname namespaces q = namespaces"
  by (simp add: add_qname_def split_qname_plain)

lemma add_qname_ns3_first:
  "CHR ''}'' \<notin> set name \<Longrightarrow> add_qname [] (ns3_tag name) = [(NS_NS3, ''ns0'')]"
  by (simp add: add_qname_def split_qname_ns3 ns3_unregistered dec_nat.simps digit_char_def)

lemma add_qname_ns3_again:
  "CHR ''}'' \<notin> set name \<Longrightarrow>
   add_qname [(NS_NS3, ''ns0'')] (ns3_tag name) = [(NS_NS3, ''ns0'')]"
  by (simp add: add_qname_def split_qname_ns3)

lemma trkpt_names:
  "iter_names (trkpt_element pt) =
     [''trkpt'', ''lat'', ''lon'', ''ele'', ''time'', ''extensions'',
      ns3_tag ''TrackPointExtension'', ns3_tag ''hr'', ns3_tag ''cad'']"
  by (simp add: trkpt_element_def)

lemma trkpt_prefix_first:
  "foldl add_qname [] (iter_names (trkpt_element pt)) = [(NS_NS3, ''ns0'')]"
  by (simp add: trkpt_names add_qname_plain add_qname_ns3_first add_qname_ns3_again)

lemma trkpt_prefix_again:
  "foldl add_qname [(NS_NS3, ''ns0'')] (iter_names (trkpt_element pt)) = [(NS_NS3, ''ns0'')]"
  by (simp add: trkpt_names add_qname_plain add_qname_ns3_again)

lemma trkpts_prefix_again:
  "foldl add_qname [(NS_NS3, ''ns0'')] (concat (map (iter_names \<circ> trkpt_element) pts))
     = [(NS_NS3, ''ns0'')]"
  by (induction pts) (simp_all add: trkpt_prefix_again)

lemma trk_namespaces:
  "et_namespaces (trk_element pts) = (if pts = [] then [] else [(NS_NS3, ''ns0'')])"
proof (cases pts)
  case Nil
  then show ?thesis
    by (simp add: et_namespaces_def trk_element_def add_qname_plain)
next
  case (Cons pt rest)
  then show ?thesis
    by (simp add: et_namespaces_def trk_element_def add_qname_plain trkpt_prefix_first
        trkpts_prefix_again)
qed

lemma metadata_namespaces: "et_namespaces (metadata_element t) = []"
  by (simp add: et_namespaces_def metadata_element_def add_qname_plain)

lemma et_qname_plain: "take 1 q \<noteq> ''{'' \<Longrightarrow> et_qname namespaces q = q"
  by (simp add: et_qname_def split_qname_plain)

lemma et_qname_ns3:
  "CHR ''}'' \<notin> set name \<Longrightarrow> et_qname [(NS_NS3, ''ns0'')] (ns3_tag name) = ''ns0:'' @ name"
  by (simp add: et_qname_def split_qname_ns3)

lemma equator_metadata_dom:
  "parse_tostring (metadata_element example_now) =
     ElementNode ''metadata'' []
       [ElementNode ''link'' [(''href'', ''connect.garmin.com'')]
          [ElementNode ''text'' [] [TextNode ''Garmin Connect'']],
        ElementNode ''time'' [] [TextNode ''2026-11-04T09:41:00.000Z'']]"
  unfolding parse_tostring_def metadata_namespaces Let_def
  by (simp add: metadata_element_def et_qname_plain example_iso)

lemma equator_trk_dom:
  "parse_tostring (trk_element [equator_point]) =
     ElementNode ''trk'' [(''xmlns:ns0'', NS_NS3)]
       [ElementNode ''name'' [] [TextNode ''County Londonderry Running''],
        ElementNode ''type'' [] [TextNode ''running''],
        ElementNode ''trkseg'' []
          [ElementNode ''trkpt''
             [(''lat'', ''0.000000000000000''), (''lon'', ''0.008983111749910'')]
             [ElementNode ''ele'' [] [TextNode ''20.000000''],
              ElementNode ''time'' [] [TextNode ''2026-11-04T09:41:00.000Z''],
              ElementNode ''extensions'' []
                [ElementNode ''ns0:TrackPointExtension'' []
                   [ElementNode ''ns0:hr'' [] [TextNode ''120''],
                    ElementNode ''ns0:cad'' [] [TextNode ''120'']]]]]]"
  unfolding parse_tostring_def trk_namespaces Let_def
  by (simp add: trk_element_def equator_trkpt et_qname_plain et_qname_ns3 xmlns_attr_def)

lemma ns3_escaped: "write_data NS_NS3 True = NS_NS3"
  by (simp add: write_data_def escape_char_def NS_NS3_def)

lemma equator_metadata_pretty:
  \<open>pretty (metadata_element example_now) =
     ''<metadata>\<newline>'' @
     ''  <link href="connect.garmin.com">\<newline>'' @
     ''    <text>Garmin Connect</text>\<newline>'' @
     ''  </link>\<newline>'' @
     ''  <time>2026-11-04T09:41:00.000Z</time>\<newline>'' @
     ''</metadata>\<newline>''\<close>
  by (simp add: pretty_def toprettyxml_def equator_metadata_dom xml_declaration_def
      write_attr_def write_data_def escape_char_def)

lemma equator_trk_pretty:
  \<open>pretty (trk_element [equator_point]) =
     ''<trk xmlns:ns0="'' @ NS_NS3 @ ''">\<newline>'' @
     ''  <name>County Londonderry Running</name>\<newline>'' @
     ''  <type>running</type>\<newline>'' @
     ''  <trkseg>\<newline>'' @
     ''    <trkpt lat="0.000000000000000" lon="0.008983111749910">\<newline>'' @
     ''      <ele>20.000000</ele>\<newline>'' @
     ''      <time>2026-11-04T09:41:00.000Z</time>\<newline>'' @
     ''      <extensions>\<newline>'' @
     ''        <ns0:TrackPointExtension>\<newline>'' @
     ''          <ns0:hr>120</ns0:hr>\<newline>'' @
     ''          <ns0:cad>120</ns0:cad>\<newline>'' @
     ''        </ns0:TrackPointExtension>\<newline>'' @
     ''      </extensions>\<newline>'' @
     ''    </trkpt>\<newline>'' @
     ''  </trkseg>\<newline>'' @
     ''</trk>\<newline>''\<close>
proof -
  have a: "write_attr (''xmlns:ns0'', NS_NS3) = '' xmlns:ns0='' @ [CHR 0x22] @ NS_NS3 @ [CHR 0x22]"
    by (simp add: write_attr_def ns3_escaped)
  have b: "write_attr (''lat'', ''0.000000000000000'') = '' lat='' @ [CHR 0x22] @ ''0.000000000000000'' @ [CHR 0x22]"
    "write_attr (''lon'', ''0.008983111749910'') = '' lon='' @ [CHR 0x22] @ ''0.008983111749910'' @ [CHR 0x22]"
    by (simp_all add: write_attr_def write_data_def escape_char_def)
  have c: "write_data ''County Londonderry Running'' False = ''County Londonderry Running''"
    "write_data ''running'' False = ''running''"
    "write_data ''20.000000'' False = ''20.000000''"
    "write_data ''2026-11-04T09:41:00.000Z'' False = ''2026-11-04T09:41:00.000Z''"
    "write_data ''120'' False = ''120''"
    by (simp_all add: write_data_def escape_char_def)
  show ?thesis
    by (simp add: pretty_def toprettyxml_def equator_trk_dom xml_declaration_def a b c)
qed

lemma equator_content: "gpx_content example_now [equator_point] = equator_document"
  by (simp add: gpx_content_def equator_document_def equator_metadata_pretty equator_trk_pretty)

text \<open>
  Claim C5. The document is the header template, the pretty-printed \<^verbatim>\<open>metadata\<close>
  element with its \<^verbatim>\<open>link\<close>, \<^verbatim>\<open>text\<close> and \<^verbatim>\<open>time\<close>, a blank line, the
  pretty-printed \<^verbatim>\<open>trk\<close> element with \<^verbatim>\<open>name\<close>, \<^verbatim>\<open>type\<close> and one \<^verbatim>\<open>trkseg\<close>
  of \<^verbatim>\<open>trkpt\<close> elements, and the closing tag; each \<^verbatim>\<open>trkpt\<close> has \<^verbatim>\<open>lat\<close> and
  \<^verbatim>\<open>lon\<close> with 15 fractional digits, \<^verbatim>\<open>ele\<close> with 6, a \<^verbatim>\<open>time\<close> ending in
  \<^verbatim>\<open>.000Z\<close> and \<^verbatim>\<open>extensions\<close> holding a \<^verbatim>\<open>TrackPointExtension\<close> with \<^verbatim>\<open>hr\<close>
  and \<^verbatim>\<open>cad\<close>. The code writes all of that but one thing: the prefix of
  \<^verbatim>\<open>TrackPointExtension\<close>, \<^verbatim>\<open>hr\<close> and \<^verbatim>\<open>cad\<close> is \<^verbatim>\<open>ns0\<close>, declared on
  \<^verbatim>\<open>trk\<close>, and not the \<^verbatim>\<open>ns3\<close> that the claim, the module's docstring and the
  hand-written header name. ElementTree picks the prefix of a namespace that is not
  registered, and \<open>NS_NS3\<close> is not (lemma \<open>trk_namespaces\<close>, for every track with
  a point). The theorem is the run for one point on the equator, file and all.
\<close>

theorem generated_document:
  "generate_run_gpx equator_params quarter_turn_rng example_now example_world =
     (example_world\<lparr>dirs := {''output''},
        files := [''output/run_20261104_094100.gpx'' \<mapsto> equator_document],
        stdout := [''GPX file saved to output/run_20261104_094100.gpx'']\<rparr>,
      Inr ''output/run_20261104_094100.gpx'')"
proof -
  have a: "''output'' \<in> dirs example_world \<or> ''output'' \<notin> dom (files example_world)"
    and b: "strftime example_now fn_format \<notin> dirs example_world"
    by (simp_all add: example_world_def)
  have c: "gpx_content example_now (w_trkseg equator_walk) = equator_document"
    by (simp add: equator_walk_def equator_content)
  show ?thesis
    unfolding generate_run_gpx_succeeds [OF equator_run a b] c example_fn
    by (simp add: example_world_def)
qed


end
